theory Spec2Isabelle
  imports Complex_Main "HOL-Library.Char_ord" "HOL-Library.List_Lexorder"
    "HOL-Library.Option_ord" "HOL-Library.AList"
begin

section \<open>Values, rows and errors\<close>

text \<open>
  The persistence layer of the media hub (\<^verbatim>\<open>database.py\<close>, \<^verbatim>\<open>setup_database.py\<close>) is a
  set of parameterised SQL statements run by SQLite. The model gives each statement its
  meaning on an explicit table value.

  \<^item> Python \<^verbatim>\<open>None\<close> and SQL \<^verbatim>\<open>NULL\<close> are \<open>None\<close>; a present value is \<open>Some v\<close>.
  \<^item> Text is a \<open>string\<close>, one \<open>char\<close> per character; the \<^verbatim>\<open>BINARY\<close> collation used by
    \<^verbatim>\<open>ORDER BY\<close>, \<^verbatim>\<open>=\<close>, \<^verbatim>\<open>DISTINCT\<close> and \<^verbatim>\<open>UNIQUE\<close> is the lexicographic order on character
    codes.
  \<^item> A rating (\<^verbatim>\<open>Optional[float]\<close>, column type \<^verbatim>\<open>REAL\<close>) is the real number a finite
    double denotes; storing and reading it back does not change it. Arithmetic on doubles
    is not arithmetic on reals, and the model does no arithmetic on ratings: what \<^verbatim>\<open>AVG\<close>
    and \<^verbatim>\<open>round\<close> compute is a parameter of \<^verbatim>\<open>get_statistics\<close>.
  \<^item> An identifier is a Python \<^verbatim>\<open>int\<close>, which has no bound; SQLite's \<^verbatim>\<open>INTEGER\<close> is a signed
    64-bit number, and the binding of a statement's parameters refuses an \<^verbatim>\<open>int\<close> outside
    that range.
  \<^item> \<^verbatim>\<open>CURRENT_TIMESTAMP\<close> is a parameter \<open>now\<close> of the writing operations.
\<close>

record Media =
  id' :: "int option"
  title :: "string option"
  media_type :: "string option"
  genre :: "string option"
  release_date :: "string option"
  director :: "string option"
  description :: "string option"
  rating :: "real option"
  status :: "string option"
  image_path :: "string option"
  date_added :: "string option"

text \<open>
  One row of table \<^verbatim>\<open>Media\<close> as \<^verbatim>\<open>setup_media_database\<close> declares it. The primary key is
  an \<^verbatim>\<open>INTEGER PRIMARY KEY\<close>, which SQLite never leaves \<^verbatim>\<open>NULL\<close>; every other column can
  hold \<^verbatim>\<open>NULL\<close> as far as its type goes, and the \<^verbatim>\<open>NOT NULL\<close> constraints on \<^verbatim>\<open>title\<close> and
  \<^verbatim>\<open>media_type\<close> are checked by the statements that write.
\<close>

record row =
  c_id :: int
  c_title :: "string option"
  c_media_type :: "string option"
  c_genre :: "string option"
  c_release_date :: "string option"
  c_director :: "string option"
  c_description :: "string option"
  c_rating :: "real option"
  c_status :: "string option"
  c_image_path :: "string option"
  c_date_added :: "string option"

text \<open>
  A table with an \<^verbatim>\<open>AUTOINCREMENT\<close> key: its rows in rowid order, and the largest rowid
  ever handed out (the table's entry in \<^verbatim>\<open>sqlite_sequence\<close>).
\<close>

record 'r table =
  rows :: "'r list"
  seq :: int

text \<open>
  A database file seen through one table name: \<open>None\<close> when the file holds no such table
  (every statement on it then fails with \<^verbatim>\<open>no such table\<close>).
\<close>

type_synonym database = "row table option"

datatype sqlite_error = IntegrityError | OperationalError

text \<open>
  Every method catches \<^verbatim>\<open>sqlite3.Error\<close> and raises \<^verbatim>\<open>Exception(f"<message>: {e}")\<close>; the
  model keeps the message and the class of the cause. \<^verbatim>\<open>OverflowError\<close> is what the
  \<^verbatim>\<open>sqlite3\<close> module raises when a parameter is an \<^verbatim>\<open>int\<close> too large for an \<^verbatim>\<open>INTEGER\<close>; it is
  not an \<^verbatim>\<open>sqlite3.Error\<close>, so no handler of the two classes catches it and it reaches the
  caller as it is.
\<close>

datatype error = Exception string sqlite_error | OverflowError

text \<open>
  The integers a statement accepts as a parameter, and the same test for an optional
  identifier, where \<^verbatim>\<open>None\<close> is bound as \<^verbatim>\<open>NULL\<close>.
\<close>

definition in_int64 :: "int \<Rightarrow> bool" where
  "in_int64 k = (- 9223372036854775808 \<le> k \<and> k \<le> 9223372036854775807)"

definition bindable :: "int option \<Rightarrow> bool" where
  "bindable x = (case x of None \<Rightarrow> True | Some k \<Rightarrow> in_int64 k)"

text \<open>
  The key of an inserted row under \<^verbatim>\<open>AUTOINCREMENT\<close>: one more than the largest rowid the
  table has ever held, 1 for a table that never held a row. Keys are 64-bit in SQLite; a
  table would have to hand out \<open>2\<^sup>6\<^sup>3 - 1\<close> of them before an insert fails for want of a
  key, and the model takes the keys of a table as unbounded integers. So the model has
  tables that no database file holds, those with a key or a \<open>seq\<close> of \<open>2\<^sup>6\<^sup>3 - 1\<close> or more.
\<close>

definition next_rowid :: "int list \<Rightarrow> int \<Rightarrow> int" where
  "next_rowid ids s = fold max ids (max s 0) + 1"

definition empty_table :: "'r table" where
  "empty_table = \<lparr>rows = [], seq = 0\<rparr>"

section \<open>The record store: \<^verbatim>\<open>DatabaseModel\<close>\<close>

definition row_to_media :: "row \<Rightarrow> Media" where
  "row_to_media r =
     \<lparr>id' = Some (c_id r), title = c_title r, media_type = c_media_type r,
      genre = c_genre r, release_date = c_release_date r, director = c_director r,
      description = c_description r, rating = c_rating r, status = c_status r,
      image_path = c_image_path r, date_added = c_date_added r\<rparr>"

text \<open>
  \<^verbatim>\<open>ORDER BY k DESC\<close> and \<^verbatim>\<open>ORDER BY k ASC\<close>. \<^verbatim>\<open>NULL\<close> sorts below every value. SQL leaves
  the order of rows with equal keys open; the model keeps them in rowid order.
\<close>

definition order_by_asc :: "('r \<Rightarrow> 'k::linorder) \<Rightarrow> 'r list \<Rightarrow> 'r list" where
  "order_by_asc k rs = sort_key k rs"

definition order_by_desc :: "('r \<Rightarrow> 'k::linorder) \<Rightarrow> 'r list \<Rightarrow> 'r list" where
  "order_by_desc k rs = rev (sort_key k (rev rs))"

definition get_all_records :: "database \<Rightarrow> error + Media list" where
  "get_all_records db =
     (case db of
        None \<Rightarrow> Inl (Exception ''Error retrieving records'' OperationalError)
      | Some t \<Rightarrow> Inr (map row_to_media (order_by_desc c_date_added (rows t))))"

text \<open>
  \<^verbatim>\<open>SELECT * FROM Media WHERE id = ?\<close> and \<^verbatim>\<open>fetchone\<close>. The statement is compiled first, which
  fails without the table; then the parameter is bound, which fails for an \<^verbatim>\<open>int\<close> outside
  the 64-bit range; then it runs.
\<close>

definition get_record :: "database \<Rightarrow> int \<Rightarrow> error + Media option" where
  "get_record db media_id =
     (case db of
        None \<Rightarrow> Inl (Exception ''Error retrieving record'' OperationalError)
      | Some t \<Rightarrow>
          if \<not> in_int64 media_id then Inl OverflowError
          else
            (case find (\<lambda>r. c_id r = media_id) (rows t) of
               None \<Rightarrow> Inr None
             | Some r \<Rightarrow> Inr (Some (row_to_media r))))"

text \<open>
  \<^verbatim>\<open>INSERT INTO Media (title, ..., image_path) VALUES (?, ..., ?)\<close>, then \<^verbatim>\<open>commit\<close>, then
  \<^verbatim>\<open>lastrowid\<close>. The statement names nine columns: \<^verbatim>\<open>id\<close> comes from \<^verbatim>\<open>AUTOINCREMENT\<close> and
  \<^verbatim>\<open>date_added\<close> from its default \<^verbatim>\<open>CURRENT_TIMESTAMP\<close>; \<^verbatim>\<open>status\<close> is given, so its default
  is never used. A \<^verbatim>\<open>NULL\<close> in a \<^verbatim>\<open>NOT NULL\<close> column is an \<^verbatim>\<open>IntegrityError\<close>, and a failed
  statement leaves the table as it was.
\<close>

definition create_record :: "database \<Rightarrow> string \<Rightarrow> Media \<Rightarrow> database \<times> (error + int)" where
  "create_record db now media =
     (case db of
        None \<Rightarrow> (db, Inl (Exception ''Error creating record'' OperationalError))
      | Some t \<Rightarrow>
          if title media = None \<or> media_type media = None
          then (db, Inl (Exception ''Error creating record'' IntegrityError))
          else
            (let lastrowid = next_rowid (map c_id (rows t)) (seq t)
             in (Some \<lparr>rows = rows t @
                    [\<lparr>c_id = lastrowid, c_title = title media,
                      c_media_type = media_type media, c_genre = genre media,
                      c_release_date = release_date media, c_director = director media,
                      c_description = description media, c_rating = rating media,
                      c_status = status media, c_image_path = image_path media,
                      c_date_added = Some now\<rparr>],
                    seq = lastrowid\<rparr>,
                 Inr lastrowid)))"

text \<open>
  \<^verbatim>\<open>UPDATE Media SET title=?, ..., image_path=? WHERE id=?\<close>, then \<^verbatim>\<open>commit\<close>, then
  \<^verbatim>\<open>rowcount > 0\<close>. Of the ten parameters only \<^verbatim>\<open>media.id\<close> is an \<^verbatim>\<open>int\<close>: outside the 64-bit range
  it is refused before the statement runs. \<^verbatim>\<open>id = NULL\<close> is true of no row. The \<^verbatim>\<open>NOT NULL\<close>
  constraints are checked on the rows the statement rewrites, so a statement that
  matches no row cannot violate them.
\<close>

definition update_record :: "database \<Rightarrow> Media \<Rightarrow> database \<times> (error + bool)" where
  "update_record db media =
     (case db of
        None \<Rightarrow> (db, Inl (Exception ''Error updating record'' OperationalError))
      | Some t \<Rightarrow>
          if \<not> bindable (id' media) then (db, Inl OverflowError)
          else
            (let hit = (\<lambda>r. Some (c_id r) = id' media);
                 rowcount = length (filter hit (rows t))
             in if rowcount > 0 \<and> (title media = None \<or> media_type media = None)
                then (db, Inl (Exception ''Error updating record'' IntegrityError))
                else
                  (Some (t\<lparr>rows :=
                      map (\<lambda>r. if hit r
                                then r\<lparr>c_title := title media,
                                       c_media_type := media_type media,
                                       c_genre := genre media,
                                       c_release_date := release_date media,
                                       c_director := director media,
                                       c_description := description media,
                                       c_rating := rating media, c_status := status media,
                                       c_image_path := image_path media\<rparr>
                                else r) (rows t)\<rparr>),
                   Inr (rowcount > 0))))"

text \<open>\<^verbatim>\<open>DELETE FROM Media WHERE id = ?\<close>, then \<^verbatim>\<open>commit\<close>, then \<^verbatim>\<open>rowcount > 0\<close>.\<close>

definition delete_record :: "database \<Rightarrow> int \<Rightarrow> database \<times> (error + bool)" where
  "delete_record db media_id =
     (case db of
        None \<Rightarrow> (db, Inl (Exception ''Error deleting record'' OperationalError))
      | Some t \<Rightarrow>
          if \<not> in_int64 media_id then (db, Inl OverflowError)
          else
            (Some (t\<lparr>rows := filter (\<lambda>r. c_id r \<noteq> media_id) (rows t)\<rparr>),
             Inr (length (filter (\<lambda>r. c_id r = media_id) (rows t)) > 0)))"

subsection \<open>Search and filters\<close>

text \<open>
  SQLite's \<^verbatim>\<open>LIKE\<close> with its defaults: \<^verbatim>\<open>%\<close> in the pattern stands for any run of characters,
  \<^verbatim>\<open>_\<close> for any one character, every other character for itself, the letters
  \<^verbatim>\<open>A\<close> to \<^verbatim>\<open>Z\<close> and \<^verbatim>\<open>a\<close> to \<^verbatim>\<open>z\<close> compared without case. There is no escape character.
\<close>

definition sql_lower :: "char \<Rightarrow> char" where
  "sql_lower c =
     (if CHR ''A'' \<le> c \<and> c \<le> CHR ''Z'' then char_of (of_char c + (32::nat)) else c)"

fun sql_like :: "string \<Rightarrow> string \<Rightarrow> bool" where
  "sql_like [] [] = True"
| "sql_like [] (c # s) = False"
| "sql_like (p # ps) [] = (p = CHR ''%'' \<and> sql_like ps [])"
| "sql_like (p # ps) (c # s) =
     (if p = CHR ''%'' then sql_like ps (c # s) \<or> sql_like (p # ps) s
      else (p = CHR ''_'' \<or> sql_lower p = sql_lower c) \<and> sql_like ps s)"

text \<open>
  \<^verbatim>\<open>SELECT * FROM Media WHERE title LIKE ? ORDER BY title ASC\<close> with the parameter
  \<^verbatim>\<open>f"%{title}%"\<close>: the caller's text goes into the pattern as it is. \<^verbatim>\<open>NULL LIKE p\<close> is not
  true.
\<close>

definition search_by_title :: "database \<Rightarrow> string \<Rightarrow> error + Media list" where
  "search_by_title db title_q =
     (case db of
        None \<Rightarrow> Inl (Exception ''Error searching'' OperationalError)
      | Some t \<Rightarrow>
          Inr (map row_to_media
                 (order_by_asc c_title
                    (filter (\<lambda>r. case c_title r of
                                    None \<Rightarrow> False
                                  | Some s \<Rightarrow> sql_like (''%'' @ title_q @ ''%'') s)
                       (rows t)))))"

text \<open>\<^verbatim>\<open>x = y\<close> in a \<^verbatim>\<open>WHERE\<close> clause: true only of two equal values, never of \<^verbatim>\<open>NULL\<close>.\<close>

definition sql_eq :: "'a option \<Rightarrow> 'a option \<Rightarrow> bool" where
  "sql_eq x y = (x \<noteq> None \<and> x = y)"

definition filter_by_type :: "database \<Rightarrow> string \<Rightarrow> error + Media list" where
  "filter_by_type db mt =
     (case db of
        None \<Rightarrow> Inl (Exception ''Error filtering'' OperationalError)
      | Some t \<Rightarrow>
          Inr (map row_to_media
                 (order_by_asc c_title
                    (filter (\<lambda>r. sql_eq (c_media_type r) (Some mt)) (rows t)))))"

definition filter_by_status :: "database \<Rightarrow> string \<Rightarrow> error + Media list" where
  "filter_by_status db st =
     (case db of
        None \<Rightarrow> Inl (Exception ''Error filtering'' OperationalError)
      | Some t \<Rightarrow>
          Inr (map row_to_media
                 (order_by_asc c_title
                    (filter (\<lambda>r. sql_eq (c_status r) (Some st)) (rows t)))))"

subsection \<open>Statistics\<close>

text \<open>
  The dictionary \<^verbatim>\<open>get_statistics\<close> returns. The two breakdowns are Python dictionaries,
  kept as association lists in insertion order; a key can be \<^verbatim>\<open>None\<close>, which is what
  \<^verbatim>\<open>SELECT DISTINCT\<close> yields for a \<^verbatim>\<open>NULL\<close>.
\<close>

record stats =
  total_items :: nat
  type_breakdown :: "(string option \<times> nat) list"
  status_breakdown :: "(string option \<times> nat) list"
  average_rating :: real

text \<open>
  \<^verbatim>\<open>SELECT DISTINCT col FROM Media\<close>, then for each value \<^verbatim>\<open>v\<close> of the result
  \<^verbatim>\<open>SELECT COUNT( * ) FROM Media WHERE col = ?\<close> stored under \<^verbatim>\<open>d[v]\<close>. SQL leaves the order
  of the distinct values open.
\<close>

definition breakdown :: "(row \<Rightarrow> string option) \<Rightarrow> row list \<Rightarrow> (string option \<times> nat) list" where
  "breakdown col rs =
     fold (\<lambda>v d. AList.update v (length (filter (\<lambda>r. sql_eq (col r) v) rs)) d)
       (remdups (map col rs)) []"

text \<open>
  \<^verbatim>\<open>AVG\<close> adds and divides IEEE doubles inside the engine, and Python's \<^verbatim>\<open>round(x, 1)\<close> gives
  the double nearest to the one-decimal number nearest to the double \<open>x\<close>. Neither agrees
  with the arithmetic of the reals: for the ratings 1.5 and nine times 0.0 the quotient
  is the double just below 0.15, and the code returns 0.1. The two operations are taken
  as they come, as parameters: \<open>avg_of xs\<close> for what \<^verbatim>\<open>AVG\<close> returns on the doubles \<open>xs\<close> when
  there is one at least, \<open>round_1 x\<close> for \<^verbatim>\<open>round(x, 1)\<close>.
\<close>

record float_ops =
  avg_of :: "real list \<Rightarrow> real"
  round_1 :: "real \<Rightarrow> real"

text \<open>\<^verbatim>\<open>AVG\<close> over the selected values: \<^verbatim>\<open>NULL\<close> when there is none.\<close>

definition sql_avg :: "float_ops \<Rightarrow> real list \<Rightarrow> real option" where
  "sql_avg fp xs = (if xs = [] then None else Some (avg_of fp xs))"

definition non_null_ratings :: "row list \<Rightarrow> real list" where
  "non_null_ratings rs = concat (map (\<lambda>r. case c_rating r of None \<Rightarrow> [] | Some x \<Rightarrow> [x]) rs)"

text \<open>
  \<^verbatim>\<open>round(avg_rating, 1) if avg_rating else 0\<close>: Python takes both \<^verbatim>\<open>None\<close> and \<^verbatim>\<open>0.0\<close> for
  false.
\<close>

definition get_statistics :: "float_ops \<Rightarrow> database \<Rightarrow> error + stats" where
  "get_statistics fp db =
     (case db of
        None \<Rightarrow> Inl (Exception ''Error getting statistics'' OperationalError)
      | Some t \<Rightarrow>
          Inr \<lparr>total_items = length (rows t),
               type_breakdown = breakdown c_media_type (rows t),
               status_breakdown = breakdown c_status (rows t),
               average_rating =
                 (case sql_avg fp (non_null_ratings (rows t)) of
                    None \<Rightarrow> 0
                  | Some avg_rating \<Rightarrow>
                      if avg_rating \<noteq> 0 then round_1 fp avg_rating else 0)\<rparr>)"

section \<open>The user registry: \<^verbatim>\<open>UserManager\<close> and \<^verbatim>\<open>setup_database.py\<close>\<close>

text \<open>One row of table \<^verbatim>\<open>Users\<close>. A username is a Python \<^verbatim>\<open>str\<close>, so it is never \<^verbatim>\<open>NULL\<close>.\<close>

record user_row =
  u_id :: int
  u_username :: string
  u_created_at :: "string option"

text \<open>
  What \<^verbatim>\<open>sqlite3.connect(name)\<close> finds under a file name: a path it cannot open or create
  (a missing directory, as for a username with a \<^verbatim>\<open>/\<close> in it, or no permission), or a
  database file. \<^verbatim>\<open>connect\<close> creates a missing file, so a missing file is a database without
  tables, \<open>File None\<close>.
\<close>

datatype db_file = Unopenable | File database

text \<open>
  The state the two modules work on: table \<^verbatim>\<open>Users\<close> of \<^verbatim>\<open>users.db\<close>, and the files of the
  directory by name. File names are compared as they are written.
\<close>

record world =
  users_db :: "user_row table option"
  files :: "string \<Rightarrow> db_file"

definition setup_users_database :: "world \<Rightarrow> world" where
  "setup_users_database w =
     w\<lparr>users_db := (case users_db w of None \<Rightarrow> Some empty_table | Some t \<Rightarrow> Some t)\<rparr>"

text \<open>
  \<^verbatim>\<open>setup_media_database\<close>: connect to \<^verbatim>\<open>f"media_library_{username}.db"\<close> and run
  \<^verbatim>\<open>CREATE TABLE IF NOT EXISTS Media\<close>. It catches nothing, so an error of the engine
  reaches the caller as it is.
\<close>

definition setup_media_database :: "world \<Rightarrow> string \<Rightarrow> sqlite_error + world" where
  "setup_media_database w username =
     (let db_name = ''media_library_'' @ username @ ''.db''
      in case files w db_name of
           Unopenable \<Rightarrow> Inl OperationalError
         | File d \<Rightarrow>
             Inr (w\<lparr>files := (files w)
                    (db_name := File (case d of None \<Rightarrow> Some empty_table | Some t \<Rightarrow> Some t))\<rparr>))"

text \<open>\<^verbatim>\<open>DatabaseModel(db_name)\<close>: the constructor connects, and the methods then work on the file.\<close>

definition connect :: "world \<Rightarrow> string \<Rightarrow> error + database" where
  "connect w db_name =
     (case files w db_name of
        Unopenable \<Rightarrow> Inl (Exception ''Database connection error'' OperationalError)
      | File d \<Rightarrow> Inr d)"

definition get_all_users :: "world \<Rightarrow> error + string list" where
  "get_all_users w =
     (case users_db w of
        None \<Rightarrow> Inl (Exception ''Error retrieving users'' OperationalError)
      | Some t \<Rightarrow> Inr (map u_username (order_by_asc u_username (rows t))))"

text \<open>
  \<^verbatim>\<open>INSERT INTO Users (username) VALUES (?)\<close> and \<^verbatim>\<open>commit\<close>: the first statement of
  \<^verbatim>\<open>create_user\<close>. \<^verbatim>\<open>UNIQUE\<close> on \<^verbatim>\<open>username\<close> compares the text as it is.
\<close>

definition insert_user :: "world \<Rightarrow> string \<Rightarrow> string \<Rightarrow> sqlite_error + world" where
  "insert_user w now username =
     (case users_db w of
        None \<Rightarrow> Inl OperationalError
      | Some t \<Rightarrow>
          if username \<in> set (map u_username (rows t)) then Inl IntegrityError
          else
            (let k = next_rowid (map u_id (rows t)) (seq t)
             in Inr (w\<lparr>users_db := Some
                      \<lparr>rows = rows t @
                         [\<lparr>u_id = k, u_username = username, u_created_at = Some now\<rparr>],
                       seq = k\<rparr>\<rparr>)))"

text \<open>
  The handlers of \<^verbatim>\<open>create_user\<close>: \<^verbatim>\<open>IntegrityError\<close> gives \<^verbatim>\<open>False\<close>, any other
  \<^verbatim>\<open>sqlite3.Error\<close> is raised again as an \<^verbatim>\<open>Exception\<close>.
\<close>

definition user_error :: "sqlite_error \<Rightarrow> error + bool" where
  "user_error e =
     (case e of
        IntegrityError \<Rightarrow> Inr False
      | OperationalError \<Rightarrow> Inl (Exception ''Error creating user'' OperationalError))"

text \<open>
  \<^verbatim>\<open>create_user\<close>: the insert is committed before \<^verbatim>\<open>setup_media_database\<close> runs, and both
  are inside the same \<^verbatim>\<open>try\<close>. The world returned with an error is the one the failed
  call leaves behind.
\<close>

definition create_user :: "world \<Rightarrow> string \<Rightarrow> string \<Rightarrow> world \<times> (error + bool)" where
  "create_user w now username =
     (case insert_user w now username of
        Inl e \<Rightarrow> (w, user_error e)
      | Inr w1 \<Rightarrow>
          (case setup_media_database w1 username of
             Inl e \<Rightarrow> (w1, user_error e)
           | Inr w2 \<Rightarrow> (w2, Inr True)))"

section \<open>Reachable states\<close>

text \<open>
  The states of one record store: \<^verbatim>\<open>setup_media_database\<close> creates the table empty, and
  from then on only the three writing methods of \<^verbatim>\<open>DatabaseModel\<close> change it, whatever
  they are called with and whether they return or raise.
\<close>

inductive reachable_store :: "database \<Rightarrow> bool" where
  provisioned: "reachable_store (Some empty_table)"
| created: "reachable_store db \<Longrightarrow> reachable_store (fst (create_record db now media))"
| updated: "reachable_store db \<Longrightarrow> reachable_store (fst (update_record db media))"
| deleted: "reachable_store db \<Longrightarrow> reachable_store (fst (delete_record db media_id))"

text \<open>
  The states of the whole installation. It starts with no table anywhere, and with any
  set of file names that cannot be opened; \<^verbatim>\<open>setup_database.py\<close> creates table \<^verbatim>\<open>Users\<close>, the
  user selection screen creates users, and the main window works on the store it
  connects to.
\<close>

definition fresh_world :: "(string \<Rightarrow> bool) \<Rightarrow> world" where
  "fresh_world blocked =
     \<lparr>users_db = None, files = (\<lambda>n. if blocked n then Unopenable else File None)\<rparr>"

inductive reachable :: "world \<Rightarrow> bool" where
  installed: "reachable (fresh_world blocked)"
| users_set_up: "reachable w \<Longrightarrow> reachable (setup_users_database w)"
| user_created: "reachable w \<Longrightarrow> reachable (fst (create_user w now username))"
| record_created:
    "reachable w \<Longrightarrow> connect w db_name = Inr db \<Longrightarrow>
     reachable (w\<lparr>files := (files w)(db_name := File (fst (create_record db now media)))\<rparr>)"
| record_updated:
    "reachable w \<Longrightarrow> connect w db_name = Inr db \<Longrightarrow>
     reachable (w\<lparr>files := (files w)(db_name := File (fst (update_record db media)))\<rparr>)"
| record_deleted:
    "reachable w \<Longrightarrow> connect w db_name = Inr db \<Longrightarrow>
     reachable (w\<lparr>files := (files w)(db_name := File (fst (delete_record db media_id)))\<rparr>)"

section \<open>Auxiliary notions\<close>

text \<open>The usernames of the registry, in rowid order; none when table \<^verbatim>\<open>Users\<close> is missing.\<close>

definition usernames :: "world \<Rightarrow> string list" where
  "usernames w = (case users_db w of None \<Rightarrow> [] | Some t \<Rightarrow> map u_username (rows t))"

text \<open>
  A run of later \<^verbatim>\<open>create_user\<close> calls, each with its timestamp and username, whatever
  each of them returns or raises.
\<close>

fun create_users :: "world \<Rightarrow> (string \<times> string) list \<Rightarrow> world" where
  "create_users w [] = w"
| "create_users w ((now, username) # calls) =
     create_users (fst (create_user w now username)) calls"

text \<open>Invariant of the registry: the username is registered, and once.\<close>

definition registered_once :: "world \<Rightarrow> string \<Rightarrow> bool" where
  "registered_once w u = (users_db w \<noteq> None \<and> count_list (usernames w) u = 1)"

text \<open>
  Invariant of the installation: a file that holds a table \<^verbatim>\<open>Media\<close> is the store of a
  registered user.
\<close>

definition stores_owned :: "world \<Rightarrow> bool" where
  "stores_owned w =
     (\<forall>n t. files w n = File (Some t) \<longrightarrow>
        (\<exists>u\<in>set (usernames w). n = ''media_library_'' @ u @ ''.db''))"

text \<open>Invariant of a record store: the table exists and no row has a \<^verbatim>\<open>NULL\<close> media type.\<close>

definition types_present :: "database \<Rightarrow> bool" where
  "types_present db =
     (case db of None \<Rightarrow> False | Some t \<Rightarrow> \<forall>r\<in>set (rows t). c_media_type r \<noteq> None)"

text \<open>
  The spec's words for the search, to compare \<^verbatim>\<open>search_by_title\<close> with: the title contains
  the query as a substring, letters compared without case. This is the test the main
  window makes in \<^verbatim>\<open>_apply_filters\<close>, \<^verbatim>\<open>search_term in m.title.lower()\<close>.
\<close>

definition spec_title_contains :: "string \<Rightarrow> string \<Rightarrow> bool" where
  "spec_title_contains q s =
     list_ex (\<lambda>i. map sql_lower (take (length q) (drop i s)) = map sql_lower q)
       [0..<Suc (length s)]"

definition wildcard_free :: "string \<Rightarrow> bool" where
  "wildcard_free q = (CHR ''%'' \<notin> set q \<and> CHR ''_'' \<notin> set q)"

section \<open>Example values\<close>

definition dune :: Media where
  "dune =
     \<lparr>id' = None, title = Some ''Dune'', media_type = Some ''Book'', genre = Some ''Sci-Fi'',
      release_date = Some ''August 1, 1965'', director = Some ''Frank Herbert'',
      description = Some '''', rating = Some 9, status = Some ''Completed'',
      image_path = Some '''', date_added = Some ''''\<rparr>"

definition untitled :: Media where
  "untitled = dune\<lparr>title := None\<rparr>"

definition noon :: string where
  "noon = ''2024-05-01 12:00:00''"

text \<open>Some floating-point operations, for examples that do not depend on them.\<close>

definition fp0 :: float_ops where
  "fp0 = \<lparr>avg_of = (\<lambda>xs. 0), round_1 = (\<lambda>x. x)\<rparr>"

definition dune_row :: row where
  "dune_row =
     \<lparr>c_id = 1, c_title = Some ''Dune'', c_media_type = Some ''Book'',
      c_genre = Some ''Sci-Fi'', c_release_date = Some ''August 1, 1965'',
      c_director = Some ''Frank Herbert'', c_description = Some '''', c_rating = Some 9,
      c_status = Some ''Completed'', c_image_path = Some '''',
      c_date_added = Some ''2024-05-01 12:00:00''\<rparr>"

definition shelf :: "row table" where
  "shelf = \<lparr>rows = [dune_row], seq = 1\<rparr>"

text \<open>The spec's two titles, \<^verbatim>\<open>beta\<close> stored first.\<close>

definition alpha_row :: row where
  "alpha_row =
     \<lparr>c_id = 2, c_title = Some ''Alpha'', c_media_type = Some ''Book'', c_genre = None,
      c_release_date = None, c_director = None, c_description = None, c_rating = None,
      c_status = Some ''To Read'', c_image_path = None,
      c_date_added = Some ''2024-05-01 12:00:00''\<rparr>"

definition beta_row :: row where
  "beta_row = alpha_row\<lparr>c_id := 1, c_title := Some ''beta''\<rparr>"

definition alpha_beta :: "row table" where
  "alpha_beta = \<lparr>rows = [beta_row, alpha_row], seq = 2\<rparr>"

text \<open>
  An installation after \<^verbatim>\<open>setup_database.py\<close> has run, in a directory with no
  subdirectory \<^verbatim>\<open>media_library_a\<close>: the store of a user named \<^verbatim>\<open>a/b\<close> cannot be created.
\<close>

definition home :: world where
  "home = setup_users_database (fresh_world (\<lambda>n. n = ''media_library_a/b.db''))"

definition half_registered :: world where
  "half_registered =
     \<lparr>users_db = Some
        \<lparr>rows = [\<lparr>u_id = 1, u_username = ''a/b'', u_created_at = Some noon\<rparr>], seq = 1\<rparr>,
      files = (\<lambda>n. if n = ''media_library_a/b.db'' then Unopenable else File None)\<rparr>"

section \<open>Properties of the record store\<close>

subsection \<open>Keys\<close>





lemma find_none: "\<forall>r\<in>set rs. \<not> P r \<Longrightarrow> find P rs = None"
  by (induction rs) auto

subsection \<open>Create, get, update\<close>



text \<open>
  Claim C5, as the spec states it, fails: table \<^verbatim>\<open>Media\<close> declares \<^verbatim>\<open>title\<close> and
  \<^verbatim>\<open>media_type\<close> \<^verbatim>\<open>NOT NULL\<close>, so the store rejects an item whose title is \<^verbatim>\<open>None\<close> and stays
  as it was.
\<close>

theorem create_record_null_title_counterexample:
  "create_record (Some empty_table) noon untitled =
     (Some empty_table, Inl (Exception ''Error creating record'' IntegrityError))"
  by (simp add: create_record_def untitled_def dune_def)

text \<open>
  Claim C5, amended. The only check \<^verbatim>\<open>create_record\<close> makes on the fields is the table's
  \<^verbatim>\<open>NOT NULL\<close> on \<^verbatim>\<open>title\<close> and \<^verbatim>\<open>media_type\<close>. On a store that has its table, an item with
  both present (an empty title, any rating, any or no status, ...) is appended as one new
  row that holds every field as given; an item with either one \<^verbatim>\<open>None\<close> is rejected with an
  error and the store is unchanged.
\<close>

theorem create_record_not_null_only:
  assumes db: "db = Some t"
  shows "(title media \<noteq> None \<and> media_type media \<noteq> None \<longrightarrow>
            (\<exists>new_id r.
               create_record db now media =
                 (Some \<lparr>rows = rows t @ [r], seq = new_id\<rparr>, Inr new_id) \<and>
               row_to_media r = media\<lparr>id' := Some new_id, date_added := Some now\<rparr>)) \<and>
         (title media = None \<or> media_type media = None \<longrightarrow>
            create_record db now media =
              (db, Inl (Exception ''Error creating record'' IntegrityError)))"
  using db by (auto simp: create_record_def row_to_media_def Let_def)

theorem create_record_not_null_only_witness:
  "(\<exists>new_id r.
      create_record (Some shelf) noon (dune\<lparr>title := Some '''', status := None\<rparr>) =
        (Some \<lparr>rows = rows shelf @ [r], seq = new_id\<rparr>, Inr new_id) \<and>
      row_to_media r =
        dune\<lparr>title := Some '''', status := None, id' := Some new_id,
             date_added := Some noon\<rparr>) \<and>
   create_record (Some shelf) noon untitled =
     (Some shelf, Inl (Exception ''Error creating record'' IntegrityError))"
  using create_record_not_null_only
          [of "Some shelf" shelf "dune\<lparr>title := Some '''', status := None\<rparr>" noon]
        create_record_not_null_only [of "Some shelf" shelf untitled noon]
  by (simp add: dune_def untitled_def)

text \<open>
  Claim C6, as the spec states it, fails: an identifier is a Python \<^verbatim>\<open>int\<close>, and for one
  outside the signed 64-bit range, which is the key of no row, \<^verbatim>\<open>update_record\<close> raises
  \<^verbatim>\<open>OverflowError\<close> instead of returning \<^verbatim>\<open>False\<close>.
\<close>

theorem update_record_huge_id_counterexample:
  "update_record (Some shelf) (dune\<lparr>id' := Some 9223372036854775808\<rparr>) =
     (Some shelf, Inl OverflowError)"
  by (simp add: update_record_def bindable_def in_int64_def)

text \<open>
  Claim C6, amended. On a store that has its table, take an item whose identifier is the
  key of no row. If the identifier is \<^verbatim>\<open>None\<close> or a signed 64-bit integer, \<^verbatim>\<open>update_record\<close>
  returns \<^verbatim>\<open>False\<close> and raises nothing; if it is outside that range, \<^verbatim>\<open>update_record\<close> raises
  \<^verbatim>\<open>OverflowError\<close>. Either way the store is left as it was, so \<^verbatim>\<open>get_all_records\<close> returns
  as many items after the call as before.
\<close>

theorem update_record_unknown_id:
  assumes "db = Some t" and "\<forall>r\<in>set (rows t). Some (c_id r) \<noteq> id' media"
  shows "(bindable (id' media) \<longrightarrow> update_record db media = (db, Inr False)) \<and>
         (\<not> bindable (id' media) \<longrightarrow> update_record db media = (db, Inl OverflowError)) \<and>
         fst (update_record db media) = db \<and>
         (\<exists>before after.
            get_all_records db = Inr before \<and>
            get_all_records (fst (update_record db media)) = Inr after \<and>
            length after = length before)"
proof -
  let ?hit = "\<lambda>r. Some (c_id r) = id' media"
  have f: "filter ?hit (rows t) = []" using assms(2) by (simp add: filter_empty_conv)
  have m: "map (\<lambda>r. if ?hit r then g r else r) (rows t) = rows t" for g
    using assms(2) by (simp add: map_idI)
  have ok: "bindable (id' media) \<longrightarrow> update_record db media = (db, Inr False)"
    using assms(1) f m by (simp add: update_record_def Let_def)
  have bad: "\<not> bindable (id' media) \<longrightarrow> update_record db media = (db, Inl OverflowError)"
    using assms(1) by (simp add: update_record_def)
  from ok bad have same: "fst (update_record db media) = db"
    by (cases "bindable (id' media)") simp_all
  have "\<exists>before. get_all_records db = Inr before"
    using assms(1) by (simp add: get_all_records_def)
  with ok bad same show ?thesis by auto
qed

theorem update_record_unknown_id_witness:
  "update_record (Some shelf) (dune\<lparr>id' := Some 7\<rparr>) = (Some shelf, Inr False) \<and>
   update_record (Some shelf) untitled = (Some shelf, Inr False) \<and>
   update_record (Some shelf) (dune\<lparr>id' := Some (- 9223372036854775809)\<rparr>) =
     (Some shelf, Inl OverflowError)"
  using update_record_unknown_id [of "Some shelf" shelf "dune\<lparr>id' := Some 7\<rparr>"]
        update_record_unknown_id [of "Some shelf" shelf untitled]
        update_record_unknown_id
          [of "Some shelf" shelf "dune\<lparr>id' := Some (- 9223372036854775809)\<rparr>"]
  by (simp add: shelf_def dune_row_def dune_def untitled_def bindable_def in_int64_def)

text \<open>
  Claim C7, as the spec states it, fails: \<open>2\<^sup>6\<^sup>3\<close> is the key of no row, and \<^verbatim>\<open>get_record\<close> on it
  raises \<^verbatim>\<open>OverflowError\<close> instead of returning \<^verbatim>\<open>None\<close>.
\<close>

theorem get_record_huge_id_counterexample:
  "get_record (Some shelf) 9223372036854775808 = Inl OverflowError"
  by (simp add: get_record_def in_int64_def)

text \<open>
  Claim C7, amended. On a store that has its table, \<^verbatim>\<open>get_record\<close> with an identifier that is
  the key of no row returns \<^verbatim>\<open>None\<close> and does not raise when the identifier is a signed
  64-bit integer, and raises \<^verbatim>\<open>OverflowError\<close> when it is not.
\<close>

theorem get_record_missing:
  assumes "db = Some t" and "\<forall>r\<in>set (rows t). c_id r \<noteq> media_id"
  shows "(in_int64 media_id \<longrightarrow> get_record db media_id = Inr None) \<and>
         (\<not> in_int64 media_id \<longrightarrow> get_record db media_id = Inl OverflowError)"
  using assms by (simp add: get_record_def find_none)

theorem get_record_missing_witness:
  "get_record (Some shelf) 7 = Inr None \<and> get_record (Some empty_table) 1 = Inr None \<and>
   get_record (Some shelf) (- 9223372036854775809) = Inl OverflowError"
  using get_record_missing [of "Some shelf" shelf 7]
        get_record_missing [of "Some empty_table" empty_table 1]
        get_record_missing [of "Some shelf" shelf "- 9223372036854775809"]
  by (simp add: shelf_def dune_row_def empty_table_def in_int64_def)

subsection \<open>Search by title\<close>

text \<open>
  On the spec's own example the search does what the spec says: of the titles \<^verbatim>\<open>Alpha\<close> and
  \<^verbatim>\<open>beta\<close>, the query \<^verbatim>\<open>ALP\<close> finds \<^verbatim>\<open>Alpha\<close> alone.
\<close>

lemma like_ALP_Alpha: "sql_like ''%ALP%'' ''Alpha''"
  by code_simp

lemma like_ALP_beta: "\<not> sql_like ''%ALP%'' ''beta''"
  by code_simp

lemma search_by_title_example:
  "search_by_title (Some alpha_beta) ''ALP'' = Inr [row_to_media alpha_row]"
  using like_ALP_Alpha like_ALP_beta
  by (simp add: search_by_title_def alpha_beta_def alpha_row_def beta_row_def order_by_asc_def)

lemma like_percent_Alpha: "sql_like ''%%%'' ''Alpha''"
  by code_simp

lemma like_percent_beta: "sql_like ''%%%'' ''beta''"
  by code_simp

lemma Alpha_before_beta: "Some ''Alpha'' \<le> Some ''beta''"
  by code_simp

lemma beta_not_before_Alpha: "\<not> Some ''beta'' \<le> Some ''Alpha''"
  by code_simp

lemma percent_not_in_Alpha: "\<not> spec_title_contains ''%'' ''Alpha''"
  by code_simp

lemma percent_not_in_beta: "\<not> spec_title_contains ''%'' ''beta''"
  by code_simp

text \<open>
  Claim C2 does not hold of the code. The query goes into the \<^verbatim>\<open>LIKE\<close> pattern unescaped,
  so a \<^verbatim>\<open>%\<close> or \<^verbatim>\<open>_\<close> in it is a wildcard: the query \<^verbatim>\<open>%\<close> returns both \<^verbatim>\<open>Alpha\<close> and \<^verbatim>\<open>beta\<close>,
  and neither title contains a \<^verbatim>\<open>%\<close>.
\<close>

theorem search_by_title_wildcard:
  "search_by_title (Some alpha_beta) ''%'' =
     Inr [row_to_media alpha_row, row_to_media beta_row] \<and>
   \<not> spec_title_contains ''%'' ''Alpha'' \<and> \<not> spec_title_contains ''%'' ''beta''"
proof -
  have "search_by_title (Some alpha_beta) ''%'' =
      Inr [row_to_media alpha_row, row_to_media beta_row]"
    using like_percent_Alpha like_percent_beta Alpha_before_beta beta_not_before_Alpha
    by (simp add: search_by_title_def alpha_beta_def alpha_row_def beta_row_def
        order_by_asc_def)
  then show ?thesis using percent_not_in_Alpha percent_not_in_beta by simp
qed

text \<open>
  For a query without \<^verbatim>\<open>%\<close> and \<^verbatim>\<open>_\<close> the pattern match is the substring test, and the
  search returns the rows whose title contains the query, sorted by title.
\<close>

lemma like_percent_any: "sql_like ''%'' s"
  by (induction s) auto

lemma like_prefix:
  "wildcard_free q \<Longrightarrow>
   sql_like (q @ ''%'') s \<longleftrightarrow>
     (length q \<le> length s \<and> map sql_lower (take (length q) s) = map sql_lower q)"
proof (induction q arbitrary: s)
  case Nil
  then show ?case by (simp add: like_percent_any)
next
  case (Cons p ps)
  then have wf: "wildcard_free ps" and p: "p \<noteq> CHR ''%''" "p \<noteq> CHR ''_''"
    by (auto simp: wildcard_free_def)
  show ?case
  proof (cases s)
    case Nil
    with p show ?thesis by simp
  next
    case (Cons c cs)
    with p Cons.IH [OF wf, of cs] show ?thesis by auto
  qed
qed

lemma like_percent_front:
  "sql_like (CHR ''%'' # r) s \<longleftrightarrow> (\<exists>i\<le>length s. sql_like r (drop i s))"
proof (induction s)
  case Nil
  then show ?case by simp
next
  case (Cons c cs)
  have "(\<exists>i\<le>length (c # cs). sql_like r (drop i (c # cs))) \<longleftrightarrow>
        sql_like r (c # cs) \<or> (\<exists>i\<le>length cs. sql_like r (drop i cs))"
  proof
    assume "\<exists>i\<le>length (c # cs). sql_like r (drop i (c # cs))"
    then obtain i where i: "i \<le> length (c # cs)" "sql_like r (drop i (c # cs))" by blast
    show "sql_like r (c # cs) \<or> (\<exists>i\<le>length cs. sql_like r (drop i cs))"
    proof (cases i)
      case 0
      with i show ?thesis by simp
    next
      case (Suc j)
      with i have "j \<le> length cs" "sql_like r (drop j cs)" by auto
      then show ?thesis by blast
    qed
  next
    assume "sql_like r (c # cs) \<or> (\<exists>i\<le>length cs. sql_like r (drop i cs))"
    then show "\<exists>i\<le>length (c # cs). sql_like r (drop i (c # cs))"
    proof
      assume "sql_like r (c # cs)"
      then have "0 \<le> length (c # cs) \<and> sql_like r (drop 0 (c # cs))" by simp
      then show ?thesis by blast
    next
      assume "\<exists>i\<le>length cs. sql_like r (drop i cs)"
      then obtain i where "i \<le> length cs" "sql_like r (drop i cs)" by blast
      then have "Suc i \<le> length (c # cs) \<and> sql_like r (drop (Suc i) (c # cs))" by simp
      then show ?thesis by blast
    qed
  qed
  with Cons show ?case by simp
qed

lemma spec_title_contains_iff:
  "spec_title_contains q s \<longleftrightarrow>
     (\<exists>i\<le>length s. map sql_lower (take (length q) (drop i s)) = map sql_lower q)"
proof -
  have "set [0..<Suc (length s)] = {i. i \<le> length s}" by auto
  then show ?thesis unfolding spec_title_contains_def list_ex_iff by blast
qed

lemma like_contains:
  assumes "wildcard_free q"
  shows "sql_like (''%'' @ q @ ''%'') s \<longleftrightarrow> spec_title_contains q s"
proof -
  have "sql_like (''%'' @ q @ ''%'') s \<longleftrightarrow>
      (\<exists>i\<le>length s. sql_like (q @ ''%'') (drop i s))"
    using like_percent_front [of "q @ ''%''" s] by simp
  also have "\<dots> \<longleftrightarrow> (\<exists>i\<le>length s. length q \<le> length (drop i s) \<and>
      map sql_lower (take (length q) (drop i s)) = map sql_lower q)"
    using like_prefix [OF assms] by simp
  also have "\<dots> \<longleftrightarrow>
      (\<exists>i\<le>length s. map sql_lower (take (length q) (drop i s)) = map sql_lower q)"
  proof -
    have "length q \<le> length (drop i s)"
      if "map sql_lower (take (length q) (drop i s)) = map sql_lower q" for i
    proof -
      from that have "length (take (length q) (drop i s)) = length q"
        by (metis length_map)
      then show ?thesis by simp
    qed
    then show ?thesis by blast
  qed
  finally show ?thesis by (simp add: spec_title_contains_iff)
qed

lemma search_by_title_plain:
  assumes "wildcard_free q" and "db = Some t"
  shows "search_by_title db q =
     Inr (map row_to_media (sort_key c_title
        (filter (\<lambda>r. case c_title r of None \<Rightarrow> False | Some s \<Rightarrow> spec_title_contains q s)
           (rows t))))"
proof -
  have "filter (\<lambda>r. case c_title r of None \<Rightarrow> False
                    | Some s \<Rightarrow> sql_like (''%'' @ q @ ''%'') s) (rows t) =
        filter (\<lambda>r. case c_title r of None \<Rightarrow> False
                    | Some s \<Rightarrow> spec_title_contains q s) (rows t)"
    using like_contains [OF assms(1)] by (intro filter_cong) (auto split: option.splits)
  then show ?thesis using assms(2) by (simp add: search_by_title_def order_by_asc_def)
qed

subsection \<open>Statistics\<close>

lemma update_fresh_key: "k \<notin> fst ` set d \<Longrightarrow> AList.update k v d = d @ [(k, v)]"
  by (induction d) auto

lemma fold_update_distinct:
  "distinct vs \<Longrightarrow> set vs \<inter> fst ` set d = {} \<Longrightarrow>
   fold (\<lambda>v d. AList.update v (f v) d) vs d = d @ map (\<lambda>v. (v, f v)) vs"
proof (induction vs arbitrary: d)
  case Nil
  then show ?case by simp
next
  case (Cons v vs)
  from Cons.prems have fresh: "v \<notin> fst ` set d" by auto
  have step: "AList.update v (f v) d = d @ [(v, f v)]"
    using fresh by (rule update_fresh_key)
  have "set vs \<inter> fst ` set (d @ [(v, f v)]) = {}" using Cons.prems by auto
  with Cons.IH [of "d @ [(v, f v)]"] Cons.prems step show ?case by simp
qed

lemma breakdown_eq:
  "breakdown col rs =
     map (\<lambda>v. (v, length (filter (\<lambda>r. sql_eq (col r) v) rs))) (remdups (map col rs))"
  unfolding breakdown_def
  using fold_update_distinct [of "remdups (map col rs)" "[]"] by simp

lemma count_groups:
  "sum_list (map (\<lambda>v. length (filter (\<lambda>r. col r = v) rs)) (remdups (map col rs))) =
     length rs"
proof -
  have "length (filter (\<lambda>r. col r = v) rs) = count_list (map col rs) v" for v
    by (induction rs) auto
  then have
    "sum_list (map (\<lambda>v. length (filter (\<lambda>r. col r = v) rs)) (remdups (map col rs))) =
     sum_list (map (count_list (map col rs)) (remdups (map col rs)))"
    by simp
  also have "\<dots> = sum (count_list (map col rs)) (set (map col rs))"
    by (simp add: sum_list_distinct_conv_sum_set)
  also have "\<dots> = length (map col rs)" by (rule sum_count_set) auto
  finally show ?thesis by simp
qed

lemma breakdown_sum:
  assumes "\<forall>r\<in>set rs. col r \<noteq> None"
  shows "sum_list (map snd (breakdown col rs)) = length rs"
proof -
  have "filter (\<lambda>r. sql_eq (col r) v) rs = filter (\<lambda>r. col r = v) rs" for v
    using assms by (intro filter_cong) (auto simp: sql_eq_def)
  then have "map snd (breakdown col rs) =
      map (\<lambda>v. length (filter (\<lambda>r. col r = v) rs)) (remdups (map col rs))"
    by (simp add: breakdown_eq comp_def)
  then show ?thesis by (simp add: count_groups)
qed

lemma types_present_create:
  "types_present db \<Longrightarrow> types_present (fst (create_record db now media))"
  by (auto simp: types_present_def create_record_def Let_def split: option.splits)

lemma types_present_update:
  "types_present db \<Longrightarrow> types_present (fst (update_record db media))"
  by (auto simp: types_present_def update_record_def Let_def filter_empty_conv
      split: option.splits)

lemma types_present_delete:
  "types_present db \<Longrightarrow> types_present (fst (delete_record db media_id))"
  by (auto simp: types_present_def delete_record_def split: option.splits if_splits)

lemma reachable_store_types_present: "reachable_store db \<Longrightarrow> types_present db"
proof (induction rule: reachable_store.induct)
  case provisioned
  show ?case by (simp add: types_present_def empty_table_def)
next
  case (created db now media)
  then show ?case by (simp add: types_present_create)
next
  case (updated db media)
  then show ?case by (simp add: types_present_update)
next
  case (deleted db media_id)
  then show ?case by (simp add: types_present_delete)
qed

text \<open>
  Claim C3. In every state a record store reaches from its creation, \<^verbatim>\<open>get_statistics\<close> and
  \<^verbatim>\<open>get_all_records\<close> both return, \<^verbatim>\<open>total_items\<close> is the number of items \<^verbatim>\<open>get_all_records\<close>
  returns, and the counts of \<^verbatim>\<open>type_breakdown\<close> add up to \<^verbatim>\<open>total_items\<close>, whatever the
  floating-point operations behind \<^verbatim>\<open>average_rating\<close> compute.
\<close>

theorem statistics_totals:
  assumes "reachable_store db"
  shows "\<exists>s ms. get_statistics fp db = Inr s \<and> get_all_records db = Inr ms \<and>
           total_items s = length ms \<and>
           sum_list (map snd (type_breakdown s)) = total_items s"
proof -
  from assms have "types_present db" by (rule reachable_store_types_present)
  then obtain t where t: "db = Some t" and nn: "\<forall>r\<in>set (rows t). c_media_type r \<noteq> None"
    by (auto simp: types_present_def split: option.splits)
  have "sum_list (map snd (breakdown c_media_type (rows t))) = length (rows t)"
    using nn by (rule breakdown_sum)
  then show ?thesis using t
    by (simp add: get_statistics_def get_all_records_def order_by_desc_def)
qed

theorem statistics_totals_witness:
  "\<exists>s ms. get_statistics fp0 (fst (create_record (Some empty_table) noon dune)) = Inr s \<and>
     get_all_records (fst (create_record (Some empty_table) noon dune)) = Inr ms \<and>
     total_items s = length ms \<and> sum_list (map snd (type_breakdown s)) = total_items s"
  using statistics_totals [OF created [OF provisioned], of fp0 noon dune] by simp

text \<open>
  Of \<^verbatim>\<open>average_rating\<close> the model determines the cases that need no arithmetic on doubles:
  it is 0 when no row has a rating, and otherwise it is \<^verbatim>\<open>round(avg, 1)\<close> of what \<^verbatim>\<open>AVG\<close>
  returned, or 0 when \<^verbatim>\<open>AVG\<close> returned zero. What these two operations return is outside
  the model (claim C4).
\<close>

lemma non_null_ratings_empty:
  "non_null_ratings rs = [] \<longleftrightarrow> (\<forall>r\<in>set rs. c_rating r = None)"
  by (induction rs) (auto simp: non_null_ratings_def split: option.splits)

lemma average_rating_without_ratings:
  assumes "db = Some t" and "\<forall>r\<in>set (rows t). c_rating r = None"
  shows "\<exists>s. get_statistics fp db = Inr s \<and> average_rating s = 0"
  using assms by (simp add: get_statistics_def sql_avg_def non_null_ratings_empty)

lemma average_rating_with_ratings:
  assumes "db = Some t" and "\<not> (\<forall>r\<in>set (rows t). c_rating r = None)"
  shows "\<exists>s. get_statistics fp db = Inr s \<and>
           average_rating s =
             (if avg_of fp (non_null_ratings (rows t)) \<noteq> 0
              then round_1 fp (avg_of fp (non_null_ratings (rows t))) else 0)"
proof -
  from assms(2) have "non_null_ratings (rows t) \<noteq> []"
    by (simp only: non_null_ratings_empty not_False_eq_True)
  then show ?thesis using assms(1) by (simp add: get_statistics_def sql_avg_def)
qed

section \<open>Properties of the user registry\<close>

lemma count_list_sort_key: "count_list (map f (sort_key f xs)) v = count_list (map f xs) v"
proof -
  have "count_list (map f ys) v = length (filter (\<lambda>x. f x = v) ys)" for ys
    by (induction ys) auto
  then show ?thesis by (simp add: filter_sort)
qed

lemma usernames_cong: "users_db w = users_db w' \<Longrightarrow> usernames w = usernames w'"
  by (simp add: usernames_def)

lemma setup_media_users: "setup_media_database w u = Inr w' \<Longrightarrow> users_db w' = users_db w"
  by (auto simp: setup_media_database_def Let_def split: db_file.splits)

lemma setup_media_error: "setup_media_database w u = Inl e \<Longrightarrow> e = OperationalError"
  by (auto simp: setup_media_database_def Let_def split: db_file.splits)

lemma insert_user_usernames:
  "insert_user w now u = Inr w' \<Longrightarrow>
   u \<notin> set (usernames w) \<and> usernames w' = usernames w @ [u] \<and> users_db w' \<noteq> None \<and>
   files w' = files w"
  by (auto simp: insert_user_def usernames_def Let_def split: option.splits if_splits)

lemma insert_user_registered:
  "users_db w \<noteq> None \<Longrightarrow> u \<in> set (usernames w) \<Longrightarrow>
   insert_user w now u = Inl IntegrityError"
  by (auto simp: insert_user_def usernames_def split: option.splits)

lemma create_user_registered:
  "users_db w \<noteq> None \<Longrightarrow> u \<in> set (usernames w) \<Longrightarrow>
   create_user w now u = (w, Inr False)"
  by (simp add: create_user_def insert_user_registered user_error_def)

lemma get_all_users_count:
  "users_db w \<noteq> None \<Longrightarrow>
   \<exists>us. get_all_users w = Inr us \<and> (\<forall>v. count_list us v = count_list (usernames w) v)"
  by (auto simp: get_all_users_def usernames_def order_by_asc_def count_list_sort_key)

lemma create_user_cases:
  "fst (create_user w now v) = w \<or>
   (\<exists>w1. insert_user w now v = Inr w1 \<and>
         users_db (fst (create_user w now v)) = users_db w1)"
  by (auto simp: create_user_def setup_media_users split: sum.splits)

lemma create_user_success:
  assumes "create_user w now u = (w', Inr True)"
  shows "\<exists>w1. insert_user w now u = Inr w1 \<and> setup_media_database w1 u = Inr w'"
  using assms
  by (auto simp: create_user_def user_error_def split: sum.splits sqlite_error.splits)

lemma registered_once_create_user:
  assumes o: "registered_once w u"
  shows "registered_once (fst (create_user w now v)) u"
  using create_user_cases [of w now v]
proof
  assume "fst (create_user w now v) = w"
  with o show ?thesis by simp
next
  assume "\<exists>w1. insert_user w now v = Inr w1 \<and>
      users_db (fst (create_user w now v)) = users_db w1"
  then obtain w1 where i: "insert_user w now v = Inr w1"
    and e: "users_db (fst (create_user w now v)) = users_db w1" by blast
  from insert_user_usernames [OF i] have nv: "v \<notin> set (usernames w)"
    and us: "usernames w1 = usernames w @ [v]" and nn: "users_db w1 \<noteq> None" by auto
  from o have "u \<in> set (usernames w)"
    by (auto simp: registered_once_def count_list_0_iff intro: ccontr)
  with nv have "u \<noteq> v" by auto
  then have "count_list (usernames w1) u = 1" using o us by (simp add: registered_once_def)
  then show ?thesis using e nn usernames_cong [OF e] by (simp add: registered_once_def)
qed

lemma registered_once_create_users:
  "registered_once w u \<Longrightarrow> registered_once (create_users w calls) u"
  by (induction w calls rule: create_users.induct) (auto intro: registered_once_create_user)

lemma home_eq:
  "home =
     \<lparr>users_db = Some empty_table,
      files = (\<lambda>n. if n = ''media_library_a/b.db'' then Unopenable else File None)\<rparr>"
  by (simp add: home_def setup_users_database_def fresh_world_def)

lemma ann_created: "snd (create_user home noon ''ann'') = Inr True"
  by (simp add: home_eq create_user_def insert_user_def setup_media_database_def
      empty_table_def Let_def next_rowid_def)

text \<open>
  Claim C8. Once \<^verbatim>\<open>create_user\<close> has returned \<^verbatim>\<open>True\<close> for a username, then after any
  further calls of \<^verbatim>\<open>create_user\<close> (none included) a call with the same username returns
  \<^verbatim>\<open>False\<close>, raises nothing and changes nothing, and \<^verbatim>\<open>get_all_users\<close> lists the username
  exactly once.
\<close>

theorem create_user_twice:
  assumes "create_user w now username = (w1, Inr True)"
  shows "create_user (create_users w1 calls) now' username =
           (create_users w1 calls, Inr False) \<and>
         (\<exists>us. get_all_users (create_users w1 calls) = Inr us \<and>
               count_list us username = 1)"
proof -
  from create_user_success [OF assms] obtain wa where
    i: "insert_user w now username = Inr wa"
    and s: "setup_media_database wa username = Inr w1"
    by blast
  from insert_user_usernames [OF i] setup_media_users [OF s]
  have "registered_once w1 username"
    by (auto simp: registered_once_def usernames_cong [of w1 wa])
  then have o: "registered_once (create_users w1 calls) username"
    by (rule registered_once_create_users)
  then have nn: "users_db (create_users w1 calls) \<noteq> None"
    and c: "count_list (usernames (create_users w1 calls)) username = 1"
    by (auto simp: registered_once_def)
  from c have "username \<in> set (usernames (create_users w1 calls))"
    by (auto simp: count_list_0_iff intro: ccontr)
  with nn have
    "create_user (create_users w1 calls) now' username = (create_users w1 calls, Inr False)"
    by (rule create_user_registered)
  moreover from get_all_users_count [OF nn] c
  have "\<exists>us. get_all_users (create_users w1 calls) = Inr us \<and> count_list us username = 1"
    by auto
  ultimately show ?thesis by simp
qed

theorem create_user_twice_witness:
  "create_user (create_users (fst (create_user home noon ''ann'')) [(noon, ''bob'')])
       noon ''ann'' =
     (create_users (fst (create_user home noon ''ann'')) [(noon, ''bob'')], Inr False) \<and>
   (\<exists>us. get_all_users
            (create_users (fst (create_user home noon ''ann'')) [(noon, ''bob'')]) = Inr us \<and>
         count_list us ''ann'' = 1)"
  using create_user_twice [of home noon "''ann''" "fst (create_user home noon ''ann'')"
      "[(noon, ''bob'')]" noon] ann_created
  by (simp add: prod_eq_iff)

subsection \<open>Provisioning\<close>

lemma stores_owned_fresh: "stores_owned (fresh_world blocked)"
  by (simp add: stores_owned_def fresh_world_def)

lemma stores_owned_setup_users: "stores_owned w \<Longrightarrow> stores_owned (setup_users_database w)"
  by (auto simp: stores_owned_def setup_users_database_def usernames_def empty_table_def
      split: option.splits)

lemma stores_owned_insert_user:
  "stores_owned w \<Longrightarrow> insert_user w now u = Inr w1 \<Longrightarrow> stores_owned w1"
  using insert_user_usernames [of w now u w1] by (fastforce simp: stores_owned_def)

lemma stores_owned_setup_media:
  assumes "stores_owned w" and "u \<in> set (usernames w)"
    and "setup_media_database w u = Inr w'"
  shows "stores_owned w'"
proof -
  from assms(3) have us: "usernames w' = usernames w"
    by (rule usernames_cong [OF setup_media_users])
  from assms(3) have fs:
    "\<And>n. n \<noteq> ''media_library_'' @ u @ ''.db'' \<Longrightarrow> files w' n = files w n"
    by (auto simp: setup_media_database_def Let_def split: db_file.splits)
  show ?thesis unfolding stores_owned_def
  proof (intro allI impI)
    fix n t assume f: "files w' n = File (Some t)"
    show "\<exists>u\<in>set (usernames w'). n = ''media_library_'' @ u @ ''.db''"
    proof (cases "n = ''media_library_'' @ u @ ''.db''")
      case True
      with assms(2) us show ?thesis by auto
    next
      case False
      with fs f have "files w n = File (Some t)" by simp
      with assms(1) us show ?thesis by (auto simp: stores_owned_def)
    qed
  qed
qed

lemma stores_owned_create_user:
  assumes o: "stores_owned w"
  shows "stores_owned (fst (create_user w now u))"
proof (cases "insert_user w now u")
  case (Inl e)
  with o show ?thesis by (simp add: create_user_def)
next
  case (Inr w1)
  with o have o1: "stores_owned w1" by (rule stores_owned_insert_user)
  from insert_user_usernames [OF Inr] have m: "u \<in> set (usernames w1)" by simp
  show ?thesis
  proof (cases "setup_media_database w1 u")
    case (Inl e)
    with \<open>insert_user w now u = Inr w1\<close> o1 show ?thesis by (simp add: create_user_def)
  next
    case (Inr w2)
    with o1 m have "stores_owned w2" by (rule stores_owned_setup_media)
    with Inr \<open>insert_user w now u = Inr w1\<close> show ?thesis by (simp add: create_user_def)
  qed
qed

lemma stores_owned_store_write:
  assumes "stores_owned w" and "connect w n = Inr db" and "db = None \<longrightarrow> db' = None"
  shows "stores_owned (w\<lparr>files := (files w)(n := File db')\<rparr>)"
proof -
  from assms(2) have f: "files w n = File db"
    by (auto simp: connect_def split: db_file.splits)
  show ?thesis unfolding stores_owned_def
  proof (intro allI impI)
    fix m t assume a: "files (w\<lparr>files := (files w)(n := File db')\<rparr>) m = File (Some t)"
    have "\<exists>t'. files w m = File (Some t')"
    proof (cases "m = n")
      case True
      with a have "db' = Some t" by simp
      with assms(3) obtain t' where "db = Some t'" by (cases db) auto
      with f True show ?thesis by simp
    next
      case False
      with a show ?thesis by simp
    qed
    with assms(1) show "\<exists>u\<in>set (usernames (w\<lparr>files := (files w)(n := File db')\<rparr>)).
        m = ''media_library_'' @ u @ ''.db''"
      by (auto simp: stores_owned_def usernames_def)
  qed
qed

lemma reachable_stores_owned: "reachable w \<Longrightarrow> stores_owned w"
proof (induction rule: reachable.induct)
  case (installed blocked)
  show ?case by (rule stores_owned_fresh)
next
  case (users_set_up w)
  then show ?case by (simp add: stores_owned_setup_users)
next
  case (user_created w now username)
  then show ?case by (simp add: stores_owned_create_user)
next
  case (record_created w db_name db now media)
  then show ?case by (intro stores_owned_store_write) (auto simp: create_record_def)
next
  case (record_updated w db_name db media)
  then show ?case by (intro stores_owned_store_write) (auto simp: update_record_def)
next
  case (record_deleted w db_name db media_id)
  then show ?case by (intro stores_owned_store_write) (auto simp: delete_record_def)
qed

text \<open>
  Claim C9. In every state of the installation, a \<^verbatim>\<open>create_user\<close> that returns \<^verbatim>\<open>True\<close>
  leaves a store under the name \<^verbatim>\<open>"media_library_" + username + ".db"\<close> that a
  \<^verbatim>\<open>DatabaseModel\<close> can connect to at once and whose \<^verbatim>\<open>get_all_records\<close> returns the empty
  list, not an error.
\<close>

theorem create_user_provisions_empty_store:
  assumes r: "reachable w" and c: "create_user w now username = (w', Inr True)"
  shows "\<exists>db. connect w' (''media_library_'' @ username @ ''.db'') = Inr db \<and>
              get_all_records db = Inr []"
proof -
  let ?n = "''media_library_'' @ username @ ''.db''"
  from create_user_success [OF c] obtain w1 where
    i: "insert_user w now username = Inr w1"
    and s: "setup_media_database w1 username = Inr w'"
    by blast
  from insert_user_usernames [OF i] have fresh: "username \<notin> set (usernames w)"
    and fs: "files w1 = files w" by auto
  have no_table: "files w ?n \<noteq> File (Some t)" for t
  proof
    assume "files w ?n = File (Some t)"
    with reachable_stores_owned [OF r] obtain u where
      "u \<in> set (usernames w)" and "?n = ''media_library_'' @ u @ ''.db''"
      unfolding stores_owned_def by blast
    with fresh show False by simp
  qed
  from s fs no_table have "files w' ?n = File (Some empty_table)"
    by (auto simp: setup_media_database_def Let_def split: db_file.splits option.splits)
  then show ?thesis
    by (simp add: connect_def get_all_records_def empty_table_def order_by_desc_def)
qed

theorem create_user_provisions_empty_store_witness:
  "\<exists>db. connect (fst (create_user home noon ''ann'')) ''media_library_ann.db'' = Inr db \<and>
        get_all_records db = Inr []"
proof -
  have "reachable home"
    unfolding home_def by (intro reachable.users_set_up reachable.installed)
  moreover have "create_user home noon ''ann'' = (fst (create_user home noon ''ann''), Inr True)"
    using ann_created by (simp add: prod_eq_iff)
  ultimately show ?thesis
    using create_user_provisions_empty_store
      [of home noon "''ann''" "fst (create_user home noon ''ann'')"]
    by simp
qed

text \<open>
  Claim C10. \<^verbatim>\<open>create_user\<close> is not atomic: when the insert has been committed and
  \<^verbatim>\<open>setup_media_database\<close> then fails, \<^verbatim>\<open>create_user\<close> raises, the state it leaves is the one
  after the insert, \<^verbatim>\<open>get_all_users\<close> lists the username there, and a retry returns
  \<^verbatim>\<open>False\<close>.
\<close>

theorem create_user_not_atomic:
  assumes i: "insert_user w now username = Inr w1"
    and s: "setup_media_database w1 username = Inl e"
  shows "create_user w now username =
           (w1, Inl (Exception ''Error creating user'' OperationalError)) \<and>
         (\<exists>us. get_all_users w1 = Inr us \<and> username \<in> set us) \<and>
         create_user w1 now' username = (w1, Inr False)"
proof -
  from s have e: "e = OperationalError" by (rule setup_media_error)
  have c: "create_user w now username =
      (w1, Inl (Exception ''Error creating user'' OperationalError))"
    using i s e by (simp add: create_user_def user_error_def)
  from insert_user_usernames [OF i] have nn: "users_db w1 \<noteq> None"
    and m: "username \<in> set (usernames w1)" by auto
  from get_all_users_count [OF nn] obtain us where
    us: "get_all_users w1 = Inr us"
    and cnt: "\<forall>v. count_list us v = count_list (usernames w1) v" by blast
  from m cnt have "username \<in> set us" by (metis count_list_0_iff)
  with us c create_user_registered [OF nn m] show ?thesis by simp
qed

theorem create_user_not_atomic_witness:
  "create_user home noon ''a/b'' =
     (half_registered, Inl (Exception ''Error creating user'' OperationalError)) \<and>
   (\<exists>us. get_all_users half_registered = Inr us \<and> ''a/b'' \<in> set us) \<and>
   create_user half_registered noon ''a/b'' = (half_registered, Inr False)"
proof -
  have i: "insert_user home noon ''a/b'' = Inr half_registered"
    by (simp add: home_eq half_registered_def insert_user_def empty_table_def Let_def
        next_rowid_def)
  have s: "setup_media_database half_registered ''a/b'' = Inl OperationalError"
    by (simp add: half_registered_def setup_media_database_def Let_def)
  show ?thesis using create_user_not_atomic [OF i s, of noon] by simp
qed

end
